theory Spec2Isabelle
  imports Main
begin

section \<open>The activity sign-up service of \<^verbatim>\<open>src/app.py\<close>\<close>

text \<open>
  The program is a FastAPI application with two process-wide dictionaries, \<^verbatim>\<open>sessions\<close>
  (session token to username) and \<^verbatim>\<open>activities\<close> (activity name to activity record),
  and one handler per route. Each handler is embedded as a function that takes the state
  and returns the response (or the \<^verbatim>\<open>HTTPException\<close> it raises) together with the
  state it leaves behind.
\<close>

subsection \<open>Data\<close>

text \<open>An entry of \<^verbatim>\<open>teachers_data["teachers"]\<close>, loaded from \<^verbatim>\<open>teachers.json\<close>.\<close>

record teacher =
  username :: string
  password_hash :: string

text \<open>A value of the \<^verbatim>\<open>activities\<close> dictionary; \<^verbatim>\<open>participants\<close> is a Python list.\<close>

record activity =
  description :: string
  schedule :: string
  max_participants :: int
  participants :: "string list"

text \<open>The two module-level dictionaries.\<close>

record state =
  sessions :: "string \<rightharpoonup> string"
  activities :: "string \<rightharpoonup> activity"

text \<open>
  What a handler can raise: \<^verbatim>\<open>HTTPException(status_code, detail)\<close>, which the
  handlers raise themselves, and the \<^verbatim>\<open>ValueError\<close> of \<^verbatim>\<open>bcrypt.checkpw\<close>, which no
  handler catches (the module has no \<^verbatim>\<open>try\<close> statement at all).
\<close>

datatype error = HTTPException nat string | ValueError

text \<open>
  What a handler returns: the redirect of \<^verbatim>\<open>/\<close>, the JSON bodies, and for login
  and logout the cookie that is set (its value) or deleted.
\<close>

datatype response =
    RedirectResponse string
  | LoginResponse string string string
  | LogoutResponse string
  | StatusResponse bool "string option"
  | ActivitiesResponse "string \<rightharpoonup> activity"
  | MessageResponse string

text \<open>
  The status of the HTTP answer: the one an \<^verbatim>\<open>HTTPException\<close> carries, and
  500 for an exception that reaches the server uncaught.
\<close>

fun status_code :: "error \<Rightarrow> nat" where
  "status_code (HTTPException c d) = c"
| "status_code ValueError = 500"

subsection \<open>The seeded state\<close>

definition seed_activities :: "string \<rightharpoonup> activity" where
  "seed_activities =
    [''Chess Club'' \<mapsto>
       \<lparr>description = ''Learn strategies and compete in chess tournaments'',
        schedule = ''Fridays, 3:30 PM - 5:00 PM'',
        max_participants = 12,
        participants = [''michael@mergington.edu'', ''daniel@mergington.edu'']\<rparr>,
     ''Programming Class'' \<mapsto>
       \<lparr>description = ''Learn programming fundamentals and build software projects'',
        schedule = ''Tuesdays and Thursdays, 3:30 PM - 4:30 PM'',
        max_participants = 20,
        participants = [''emma@mergington.edu'', ''sophia@mergington.edu'']\<rparr>,
     ''Gym Class'' \<mapsto>
       \<lparr>description = ''Physical education and sports activities'',
        schedule = ''Mondays, Wednesdays, Fridays, 2:00 PM - 3:00 PM'',
        max_participants = 30,
        participants = [''john@mergington.edu'', ''olivia@mergington.edu'']\<rparr>,
     ''Soccer Team'' \<mapsto>
       \<lparr>description = ''Join the school soccer team and compete in matches'',
        schedule = ''Tuesdays and Thursdays, 4:00 PM - 5:30 PM'',
        max_participants = 22,
        participants = [''liam@mergington.edu'', ''noah@mergington.edu'']\<rparr>,
     ''Basketball Team'' \<mapsto>
       \<lparr>description = ''Practice and play basketball with the school team'',
        schedule = ''Wednesdays and Fridays, 3:30 PM - 5:00 PM'',
        max_participants = 15,
        participants = [''ava@mergington.edu'', ''mia@mergington.edu'']\<rparr>,
     ''Art Club'' \<mapsto>
       \<lparr>description = ''Explore your creativity through painting and drawing'',
        schedule = ''Thursdays, 3:30 PM - 5:00 PM'',
        max_participants = 15,
        participants = [''amelia@mergington.edu'', ''harper@mergington.edu'']\<rparr>,
     ''Drama Club'' \<mapsto>
       \<lparr>description = ''Act, direct, and produce plays and performances'',
        schedule = ''Mondays and Wednesdays, 4:00 PM - 5:30 PM'',
        max_participants = 20,
        participants = [''ella@mergington.edu'', ''scarlett@mergington.edu'']\<rparr>,
     ''Math Club'' \<mapsto>
       \<lparr>description = ''Solve challenging problems and participate in math competitions'',
        schedule = ''Tuesdays, 3:30 PM - 4:30 PM'',
        max_participants = 10,
        participants = [''james@mergington.edu'', ''benjamin@mergington.edu'']\<rparr>,
     ''Debate Team'' \<mapsto>
       \<lparr>description = ''Develop public speaking and argumentation skills'',
        schedule = ''Fridays, 4:00 PM - 5:30 PM'',
        max_participants = 12,
        participants = [''charlotte@mergington.edu'', ''henry@mergington.edu'']\<rparr>]"

definition init_state :: state where
  "init_state = \<lparr>sessions = Map.empty, activities = seed_activities\<rparr>"

subsection \<open>Authentication helpers\<close>

text \<open>
  \<^verbatim>\<open>if session_id and session_id in sessions: return sessions[session_id]\<close>: the cookie
  is an \<^verbatim>\<open>Optional[str]\<close>, and both \<^verbatim>\<open>None\<close> and the empty string are falsy.
\<close>

definition get_current_user :: "state \<Rightarrow> string option \<Rightarrow> string option" where
  "get_current_user s session_id =
     (case session_id of
        None \<Rightarrow> None
      | Some sid \<Rightarrow> if sid \<noteq> [] \<and> sessions s sid \<noteq> None then sessions s sid else None)"

text \<open>\<^verbatim>\<open>if not user: raise HTTPException(401, ...)\<close>: an empty username is falsy too.\<close>

definition require_auth :: "state \<Rightarrow> string option \<Rightarrow> error + string" where
  "require_auth s session_id =
     (case get_current_user s session_id of
        None \<Rightarrow> Inl (HTTPException 401 ''Authentication required'')
      | Some user \<Rightarrow>
          if user = [] then Inl (HTTPException 401 ''Authentication required'')
          else Inr user)"

subsection \<open>The authentication routes\<close>

text \<open>
  \<^verbatim>\<open>login\<close> reads two things that are not in the source tree: the teacher list of
  \<^verbatim>\<open>teachers.json\<close> and the library call \<^verbatim>\<open>bcrypt.checkpw\<close>. Both are parameters,
  as is the token that \<^verbatim>\<open>secrets.token_urlsafe(32)\<close> draws for this call.
  \<^verbatim>\<open>next(..., None)\<close> takes the first teacher with the submitted username.
  The password check returns a boolean or raises \<^verbatim>\<open>ValueError\<close> (a stored hash it
  cannot parse; in bcrypt 5 also a password of more than 72 bytes): its result is a
  \<open>bool option\<close>, \<open>None\<close> for the raise. \<^verbatim>\<open>login\<close> calls it outside any \<^verbatim>\<open>try\<close>, so
  the exception leaves the handler before \<^verbatim>\<open>sessions\<close> is written.
\<close>

definition login ::
  "teacher list \<Rightarrow> (string \<Rightarrow> string \<Rightarrow> bool option) \<Rightarrow> string \<Rightarrow>
   state \<Rightarrow> string \<Rightarrow> string \<Rightarrow> (error + response) \<times> state" where
  "login teachers_data checkpw token s username' password =
     (case find (\<lambda>t. username t = username') teachers_data of
        None \<Rightarrow> (Inl (HTTPException 401 ''Invalid credentials''), s)
      | Some teacher \<Rightarrow>
          (case checkpw password (password_hash teacher) of
             None \<Rightarrow> (Inl ValueError, s)
           | Some verified \<Rightarrow>
               if \<not> verified
               then (Inl (HTTPException 401 ''Invalid credentials''), s)
               else (Inr (LoginResponse ''Logged in successfully'' username' token),
                     s\<lparr>sessions := (sessions s)(token \<mapsto> username')\<rparr>)))"

definition logout :: "state \<Rightarrow> string option \<Rightarrow> (error + response) \<times> state" where
  "logout s session_id =
     (Inr (LogoutResponse ''Logged out successfully''),
      (case session_id of
         None \<Rightarrow> s
       | Some sid \<Rightarrow>
           if sid \<noteq> [] \<and> sessions s sid \<noteq> None
           then s\<lparr>sessions := (sessions s)(sid := None)\<rparr>
           else s))"

definition auth_status :: "state \<Rightarrow> string option \<Rightarrow> (error + response) \<times> state" where
  "auth_status s session_id =
     (case get_current_user s session_id of
        None \<Rightarrow> (Inr (StatusResponse False None), s)
      | Some user \<Rightarrow>
          if user \<noteq> [] then (Inr (StatusResponse True (Some user)), s)
          else (Inr (StatusResponse False None), s))"

subsection \<open>The activity routes\<close>

definition root :: "state \<Rightarrow> (error + response) \<times> state" where
  "root s = (Inr (RedirectResponse ''/static/index.html''), s)"

definition get_activities :: "state \<Rightarrow> (error + response) \<times> state" where
  "get_activities s = (Inr (ActivitiesResponse (activities s)), s)"

text \<open>
  The bodies of the two roster handlers. \<^verbatim>\<open>current_user\<close> is the value of
  \<^verbatim>\<open>Depends(require_auth)\<close>; neither body reads it.
  \<^verbatim>\<open>list.append\<close> adds at the end, \<^verbatim>\<open>list.remove\<close> deletes the first occurrence.
\<close>

definition signup_for_activity ::
  "state \<Rightarrow> string \<Rightarrow> string \<Rightarrow> string \<Rightarrow> (error + response) \<times> state" where
  "signup_for_activity s activity_name email current_user =
     (case activities s activity_name of
        None \<Rightarrow> (Inl (HTTPException 404 ''Activity not found''), s)
      | Some activity \<Rightarrow>
          if email \<in> set (participants activity)
          then (Inl (HTTPException 400 ''Student is already signed up''), s)
          else (Inr (MessageResponse (''Signed up '' @ email @ '' for '' @ activity_name)),
                s\<lparr>activities := (activities s)(activity_name \<mapsto>
                     activity\<lparr>participants := participants activity @ [email]\<rparr>)\<rparr>))"

definition unregister_from_activity ::
  "state \<Rightarrow> string \<Rightarrow> string \<Rightarrow> string \<Rightarrow> (error + response) \<times> state" where
  "unregister_from_activity s activity_name email current_user =
     (case activities s activity_name of
        None \<Rightarrow> (Inl (HTTPException 404 ''Activity not found''), s)
      | Some activity \<Rightarrow>
          if email \<notin> set (participants activity)
          then (Inl (HTTPException 400 ''Student is not signed up for this activity''), s)
          else (Inr (MessageResponse (''Unregistered '' @ email @ '' from '' @ activity_name)),
                s\<lparr>activities := (activities s)(activity_name \<mapsto>
                     activity\<lparr>participants := remove1 email (participants activity)\<rparr>)\<rparr>))"

subsection \<open>Requests\<close>

text \<open>
  A request is the \<^verbatim>\<open>session_id\<close> cookie it carries (if any) and the route with its
  parameters. The dependency \<^verbatim>\<open>Depends(require_auth)\<close> of the two roster routes runs
  before the handler body, and what it raises is the response. The other routes declare
  no such dependency; \<^verbatim>\<open>get_activities\<close> and \<^verbatim>\<open>root\<close> do not even read the cookie.
\<close>

datatype route =
    Root
  | Login string string
  | Logout
  | Status
  | ListActivities
  | Signup string string
  | Unregister string string

definition signup_request ::
  "state \<Rightarrow> string option \<Rightarrow> string \<Rightarrow> string \<Rightarrow> (error + response) \<times> state" where
  "signup_request s session_id activity_name email =
     (case require_auth s session_id of
        Inl e \<Rightarrow> (Inl e, s)
      | Inr current_user \<Rightarrow> signup_for_activity s activity_name email current_user)"

definition unregister_request ::
  "state \<Rightarrow> string option \<Rightarrow> string \<Rightarrow> string \<Rightarrow> (error + response) \<times> state" where
  "unregister_request s session_id activity_name email =
     (case require_auth s session_id of
        Inl e \<Rightarrow> (Inl e, s)
      | Inr current_user \<Rightarrow> unregister_from_activity s activity_name email current_user)"

fun handle ::
  "teacher list \<Rightarrow> (string \<Rightarrow> string \<Rightarrow> bool option) \<Rightarrow> string \<Rightarrow>
   state \<Rightarrow> string option \<Rightarrow> route \<Rightarrow> (error + response) \<times> state" where
  "handle teachers_data checkpw token s session_id Root = root s"
| "handle teachers_data checkpw token s session_id (Login username' password) =
     login teachers_data checkpw token s username' password"
| "handle teachers_data checkpw token s session_id Logout = logout s session_id"
| "handle teachers_data checkpw token s session_id Status = auth_status s session_id"
| "handle teachers_data checkpw token s session_id ListActivities = get_activities s"
| "handle teachers_data checkpw token s session_id (Signup activity_name email) =
     signup_request s session_id activity_name email"
| "handle teachers_data checkpw token s session_id (Unregister activity_name email) =
     unregister_request s session_id activity_name email"

text \<open>
  The states the process can be in: the seeded state, and whatever a request leaves
  behind. Cookie, route and parameters are arbitrary. So is the drawn token, except that
  it is not empty: \<^verbatim>\<open>secrets.token_urlsafe(32)\<close> is the unpadded base64 text of 32
  bytes, 43 characters.
\<close>

inductive reachable ::
  "teacher list \<Rightarrow> (string \<Rightarrow> string \<Rightarrow> bool option) \<Rightarrow> state \<Rightarrow> bool"
  for teachers_data :: "teacher list" and checkpw :: "string \<Rightarrow> string \<Rightarrow> bool option" where
  start: "reachable teachers_data checkpw init_state"
| request: "reachable teachers_data checkpw s \<Longrightarrow> token \<noteq> [] \<Longrightarrow>
     reachable teachers_data checkpw (snd (handle teachers_data checkpw token s session_id r))"

subsection \<open>Notions the properties are stated with\<close>

text \<open>
  The request carries no token the session registry knows: there is no cookie, or its
  value is not a key of \<^verbatim>\<open>sessions\<close>.
\<close>

definition token_absent :: "state \<Rightarrow> string option \<Rightarrow> bool" where
  "token_absent s session_id =
     (case session_id of None \<Rightarrow> True | Some sid \<Rightarrow> sessions s sid = None)"

text \<open>
  Every session key is a non-empty token and every session value is the username of a
  teacher of the credential store.
\<close>

definition sessions_ok :: "teacher list \<Rightarrow> state \<Rightarrow> bool" where
  "sessions_ok teachers_data s \<longleftrightarrow>
     (\<forall>sid u. sessions s sid = Some u \<longrightarrow> sid \<noteq> [] \<and> u \<in> username ` set teachers_data)"

text \<open>No roster lists an email twice.\<close>

definition rosters_distinct :: "state \<Rightarrow> bool" where
  "rosters_distinct s \<longleftrightarrow> (\<forall>n a. activities s n = Some a \<longrightarrow> distinct (participants a))"

subsection \<open>States and parameters used as concrete inputs\<close>

text \<open>
  A state with one session and one activity whose roster is exactly as long as its
  \<^verbatim>\<open>max_participants\<close>.
\<close>

definition full_state :: state where
  "full_state =
     \<lparr>sessions = [''s3cr3t'' \<mapsto> ''mrodriguez''],
      activities = [''Chess Club'' \<mapsto>
        \<lparr>description = ''Learn strategies and compete in chess tournaments'',
         schedule = ''Fridays, 3:30 PM - 5:00 PM'',
         max_participants = 2,
         participants = [''michael@mergington.edu'', ''daniel@mergington.edu'']\<rparr>]\<rparr>"

text \<open>
  A credential store with one teacher, whose password is \<open>''art123''\<close>, and a stand-in
  for the password check that raises as bcrypt 5 does on a password of more than 72
  bytes and otherwise compares; a wrong password of 73 bytes; and the seeded state after
  that teacher has logged in and drawn the token \<open>''s3cr3t''\<close>.
\<close>

definition example_teachers :: "teacher list" where
  "example_teachers = [\<lparr>username = ''mrodriguez'', password_hash = ''hash:art123''\<rparr>]"

definition example_checkpw :: "string \<Rightarrow> string \<Rightarrow> bool option" where
  "example_checkpw password stored_hash =
     (if 72 < length password then None else Some (stored_hash = ''hash:'' @ password))"

definition long_password :: string where
  "long_password = replicate 73 (CHR ''x'')"

definition logged_in_state :: state where
  "logged_in_state = init_state\<lparr>sessions := [''s3cr3t'' \<mapsto> ''mrodriguez'']\<rparr>"

text \<open>The state after that teacher has signed a new student up for the Chess Club.\<close>

definition enrolled_state :: state where
  "enrolled_state = logged_in_state\<lparr>activities := (activities logged_in_state)(''Chess Club'' \<mapsto>
     \<lparr>description = ''Learn strategies and compete in chess tournaments'',
      schedule = ''Fridays, 3:30 PM - 5:00 PM'',
      max_participants = 12,
      participants = [''michael@mergington.edu'', ''daniel@mergington.edu'',
        ''test@mergington.edu'']\<rparr>)\<rparr>"

section \<open>Properties\<close>

subsection \<open>Session lookup\<close>

lemma get_current_user_None: "get_current_user s None = None"
  by (simp add: get_current_user_def)

lemma unresolved_iff:
  "get_current_user s session_id = None \<longleftrightarrow>
   session_id = None \<or> session_id = Some [] \<or> sessions s (the session_id) = None"
  by (auto simp: get_current_user_def split: option.splits)

lemma require_auth_unresolved:
  "get_current_user s session_id = None \<Longrightarrow>
   require_auth s session_id = Inl (HTTPException 401 ''Authentication required'')"
  by (simp add: require_auth_def)

lemma require_auth_error:
  "require_auth s session_id = Inl e \<Longrightarrow> e = HTTPException 401 ''Authentication required''"
  by (auto simp: require_auth_def split: option.splits if_splits)

text \<open>When the dependency lets a request through.\<close>

lemma require_auth_Inr:
  "require_auth s session_id = Inr u \<longleftrightarrow>
   (\<exists>sid. session_id = Some sid \<and> sid \<noteq> [] \<and> sessions s sid = Some u \<and> u \<noteq> [])"
  by (auto simp: require_auth_def get_current_user_def split: option.splits if_splits)

lemma full_auth: "require_auth full_state (Some ''s3cr3t'') = Inr ''mrodriguez''"
  by (simp add: require_auth_def get_current_user_def full_state_def)

subsection \<open>The branches of the two roster handlers\<close>

lemma signup_not_found:
  "activities s n = None \<Longrightarrow>
   signup_for_activity s n e u = (Inl (HTTPException 404 ''Activity not found''), s)"
  by (simp add: signup_for_activity_def)

lemma signup_duplicate:
  "activities s n = Some a \<Longrightarrow> e \<in> set (participants a) \<Longrightarrow>
   signup_for_activity s n e u = (Inl (HTTPException 400 ''Student is already signed up''), s)"
  by (simp add: signup_for_activity_def)

lemma signup_success:
  "activities s n = Some a \<Longrightarrow> e \<notin> set (participants a) \<Longrightarrow>
   signup_for_activity s n e u =
     (Inr (MessageResponse (''Signed up '' @ e @ '' for '' @ n)),
      s\<lparr>activities := (activities s)(n \<mapsto> a\<lparr>participants := participants a @ [e]\<rparr>)\<rparr>)"
  by (simp add: signup_for_activity_def)

lemma unregister_not_found:
  "activities s n = None \<Longrightarrow>
   unregister_from_activity s n e u = (Inl (HTTPException 404 ''Activity not found''), s)"
  by (simp add: unregister_from_activity_def)

lemma unregister_absent:
  "activities s n = Some a \<Longrightarrow> e \<notin> set (participants a) \<Longrightarrow>
   unregister_from_activity s n e u =
     (Inl (HTTPException 400 ''Student is not signed up for this activity''), s)"
  by (simp add: unregister_from_activity_def)

lemma unregister_success:
  "activities s n = Some a \<Longrightarrow> e \<in> set (participants a) \<Longrightarrow>
   unregister_from_activity s n e u =
     (Inr (MessageResponse (''Unregistered '' @ e @ '' from '' @ n)),
      s\<lparr>activities := (activities s)(n \<mapsto> a\<lparr>participants := remove1 e (participants a)\<rparr>)\<rparr>)"
  by (simp add: unregister_from_activity_def)

lemma signup_request_auth:
  "require_auth s c = Inr u \<Longrightarrow> signup_request s c n e = signup_for_activity s n e u"
  by (simp add: signup_request_def)

lemma unregister_request_auth:
  "require_auth s c = Inr u \<Longrightarrow> unregister_request s c n e = unregister_from_activity s n e u"
  by (simp add: unregister_request_def)

lemma signup_request_unauth:
  "require_auth s c = Inl e \<Longrightarrow> signup_request s c n em = (Inl e, s)"
  by (simp add: signup_request_def)

lemma unregister_request_unauth:
  "require_auth s c = Inl e \<Longrightarrow> unregister_request s c n em = (Inl e, s)"
  by (simp add: unregister_request_def)

lemma length_remove1_member:
  "e \<in> set xs \<Longrightarrow> Suc (length (remove1 e xs)) = length xs"
  using length_pos_if_in_set [of e xs] by (simp add: length_remove1)

subsection \<open>Sign-up\<close>

text \<open>
  Claim C1. A sign-up request that passes \<^verbatim>\<open>require_auth\<close> has exactly three outcomes:
  404 when the activity name is not a key of the registry; 400 when the email is already
  on that activity's roster; otherwise success, with the email appended at the end of
  the roster. No branch compares the roster with \<^verbatim>\<open>max_participants\<close>, so the third
  case also covers a roster that is already full. The first two outcomes leave the
  state as it was.
\<close>

theorem signup_cases:
  assumes auth: "require_auth s session_id = Inr current_user"
  shows
    "(activities s activity_name = None \<longrightarrow>
        signup_request s session_id activity_name email =
          (Inl (HTTPException 404 ''Activity not found''), s)) \<and>
     (\<forall>a. activities s activity_name = Some a \<and> email \<in> set (participants a) \<longrightarrow>
        signup_request s session_id activity_name email =
          (Inl (HTTPException 400 ''Student is already signed up''), s)) \<and>
     (\<forall>a. activities s activity_name = Some a \<and> email \<notin> set (participants a) \<longrightarrow>
        fst (signup_request s session_id activity_name email) =
          Inr (MessageResponse (''Signed up '' @ email @ '' for '' @ activity_name)) \<and>
        activities (snd (signup_request s session_id activity_name email)) activity_name =
          Some (a\<lparr>participants := participants a @ [email]\<rparr>))"
  using auth
  by (simp add: signup_request_auth signup_not_found signup_duplicate signup_success)

text \<open>
  The three outcomes on \<open>full_state\<close>: an unknown activity, an email already enrolled,
  and a new email on a roster whose length equals \<^verbatim>\<open>max_participants\<close>.
\<close>

theorem signup_cases_witness:
  "require_auth full_state (Some ''s3cr3t'') = Inr ''mrodriguez'' \<and>
   activities full_state ''Juggling Club'' = None \<and>
   signup_request full_state (Some ''s3cr3t'') ''Juggling Club'' ''test@mergington.edu'' =
     (Inl (HTTPException 404 ''Activity not found''), full_state) \<and>
   ''daniel@mergington.edu'' \<in> set (participants (the (activities full_state ''Chess Club''))) \<and>
   signup_request full_state (Some ''s3cr3t'') ''Chess Club'' ''daniel@mergington.edu'' =
     (Inl (HTTPException 400 ''Student is already signed up''), full_state) \<and>
   ''test@mergington.edu'' \<notin> set (participants (the (activities full_state ''Chess Club''))) \<and>
   int (length (participants (the (activities full_state ''Chess Club'')))) =
     max_participants (the (activities full_state ''Chess Club'')) \<and>
   fst (signup_request full_state (Some ''s3cr3t'') ''Chess Club'' ''test@mergington.edu'') =
     Inr (MessageResponse ''Signed up test@mergington.edu for Chess Club'') \<and>
   map_option participants
     (activities (snd (signup_request full_state (Some ''s3cr3t'') ''Chess Club''
        ''test@mergington.edu'')) ''Chess Club'') =
     Some [''michael@mergington.edu'', ''daniel@mergington.edu'', ''test@mergington.edu'']"
  using signup_cases [OF full_auth, of "''Juggling Club''" "''test@mergington.edu''"]
    signup_cases [OF full_auth, of "''Chess Club''" "''daniel@mergington.edu''"]
    signup_cases [OF full_auth, of "''Chess Club''" "''test@mergington.edu''"]
  by (simp add: full_state_def full_auth [unfolded full_state_def])

subsection \<open>Unregister\<close>

text \<open>
  Claim C2. An unregister request that passes \<^verbatim>\<open>require_auth\<close> has exactly three
  outcomes: 404 when the activity name is not a key of the registry; 400 when the email
  is not on that activity's roster; otherwise success, with the first occurrence of the
  email deleted from the roster. The roster then is one shorter, and when it had no
  duplicates the email is no longer on it.
\<close>

theorem unregister_cases:
  assumes auth: "require_auth s session_id = Inr current_user"
  shows
    "(activities s activity_name = None \<longrightarrow>
        unregister_request s session_id activity_name email =
          (Inl (HTTPException 404 ''Activity not found''), s)) \<and>
     (\<forall>a. activities s activity_name = Some a \<and> email \<notin> set (participants a) \<longrightarrow>
        unregister_request s session_id activity_name email =
          (Inl (HTTPException 400 ''Student is not signed up for this activity''), s)) \<and>
     (\<forall>a. activities s activity_name = Some a \<and> email \<in> set (participants a) \<longrightarrow>
        fst (unregister_request s session_id activity_name email) =
          Inr (MessageResponse (''Unregistered '' @ email @ '' from '' @ activity_name)) \<and>
        activities (snd (unregister_request s session_id activity_name email)) activity_name =
          Some (a\<lparr>participants := remove1 email (participants a)\<rparr>) \<and>
        length (remove1 email (participants a)) + 1 = length (participants a) \<and>
        (distinct (participants a) \<longrightarrow>
           set (remove1 email (participants a)) = set (participants a) - {email}))"
  using auth
  by (simp add: unregister_request_auth unregister_not_found unregister_absent
      unregister_success length_remove1_member)

theorem unregister_cases_witness:
  "require_auth full_state (Some ''s3cr3t'') = Inr ''mrodriguez'' \<and>
   activities full_state ''Juggling Club'' = None \<and>
   unregister_request full_state (Some ''s3cr3t'') ''Juggling Club'' ''test@mergington.edu'' =
     (Inl (HTTPException 404 ''Activity not found''), full_state) \<and>
   ''test@mergington.edu'' \<notin> set (participants (the (activities full_state ''Chess Club''))) \<and>
   unregister_request full_state (Some ''s3cr3t'') ''Chess Club'' ''test@mergington.edu'' =
     (Inl (HTTPException 400 ''Student is not signed up for this activity''), full_state) \<and>
   ''michael@mergington.edu'' \<in> set (participants (the (activities full_state ''Chess Club''))) \<and>
   fst (unregister_request full_state (Some ''s3cr3t'') ''Chess Club'' ''michael@mergington.edu'') =
     Inr (MessageResponse ''Unregistered michael@mergington.edu from Chess Club'') \<and>
   map_option participants
     (activities (snd (unregister_request full_state (Some ''s3cr3t'') ''Chess Club''
        ''michael@mergington.edu'')) ''Chess Club'') =
     Some [''daniel@mergington.edu'']"
  using unregister_cases [OF full_auth, of "''Juggling Club''" "''test@mergington.edu''"]
    unregister_cases [OF full_auth, of "''Chess Club''" "''test@mergington.edu''"]
    unregister_cases [OF full_auth, of "''Chess Club''" "''michael@mergington.edu''"]
  by (simp add: full_state_def full_auth [unfolded full_state_def])

subsection \<open>What each route leaves untouched\<close>

lemma login_activities: "activities (snd (login T ck tok s u p)) = activities s"
  by (simp add: login_def split: option.splits)

lemma login_failure_state:
  "fst (login T ck tok s u p) = Inl e \<Longrightarrow> snd (login T ck tok s u p) = s"
  by (auto simp: login_def split: option.splits if_splits)

lemma logout_activities: "activities (snd (logout s c)) = activities s"
  by (simp add: logout_def split: option.splits)

lemma auth_status_state: "snd (auth_status s c) = s"
  by (simp add: auth_status_def split: option.splits)

lemma handle_unauth_activities:
  "require_auth s c = Inl e \<Longrightarrow> activities (snd (handle T ck tok s c r)) = activities s"
  by (cases r)
    (simp_all add: root_def get_activities_def login_activities logout_activities
      auth_status_state signup_request_unauth unregister_request_unauth)

lemma require_auth_sessions:
  "sessions s' = sessions s \<Longrightarrow> require_auth s' c = require_auth s c"
  by (simp add: require_auth_def get_current_user_def split: option.splits)

subsection \<open>Facts about the example states\<close>

lemma full_unknown: "activities full_state ''Juggling Club'' = None"
  by (simp add: full_state_def)

lemma full_chess:
  "activities full_state ''Chess Club'' =
     Some \<lparr>description = ''Learn strategies and compete in chess tournaments'',
        schedule = ''Fridays, 3:30 PM - 5:00 PM'',
        max_participants = 2,
        participants = [''michael@mergington.edu'', ''daniel@mergington.edu'']\<rparr>"
  by (simp add: full_state_def)

lemma login_valid_example:
  "login example_teachers example_checkpw ''s3cr3t'' init_state ''mrodriguez'' ''art123'' =
     (Inr (LoginResponse ''Logged in successfully'' ''mrodriguez'' ''s3cr3t''), logged_in_state)"
  by (simp add: login_def example_teachers_def example_checkpw_def logged_in_state_def
      init_state_def)

lemma logged_in_auth: "require_auth logged_in_state (Some ''s3cr3t'') = Inr ''mrodriguez''"
  by (simp add: require_auth_def get_current_user_def logged_in_state_def)

lemma no_cookie_unresolved: "get_current_user logged_in_state None = None"
  by (rule get_current_user_None)

lemma forged_cookie_unresolved: "get_current_user logged_in_state (Some ''f0rg3d'') = None"
  by (simp add: get_current_user_def logged_in_state_def)

lemma logged_in_chess:
  "activities logged_in_state ''Chess Club'' =
     Some \<lparr>description = ''Learn strategies and compete in chess tournaments'',
        schedule = ''Fridays, 3:30 PM - 5:00 PM'',
        max_participants = 12,
        participants = [''michael@mergington.edu'', ''daniel@mergington.edu'']\<rparr>"
  by (simp add: logged_in_state_def init_state_def seed_activities_def)

lemma logged_in_reachable: "reachable example_teachers example_checkpw logged_in_state"
proof -
  have "reachable example_teachers example_checkpw
      (snd (handle example_teachers example_checkpw ''s3cr3t'' init_state None
         (Login ''mrodriguez'' ''art123'')))"
    by (rule reachable.request [OF reachable.start]) simp
  then show ?thesis
    by (simp add: login_valid_example)
qed

lemma example_usernames: "[] \<notin> username ` set example_teachers"
  by (simp add: example_teachers_def)

lemma forged_absent: "token_absent logged_in_state (Some ''f0rg3d'')"
  by (simp add: token_absent_def logged_in_state_def)

lemma issued_present: "\<not> token_absent logged_in_state (Some ''s3cr3t'')"
  by (simp add: token_absent_def logged_in_state_def)

lemma signup_example:
  "signup_request logged_in_state (Some ''s3cr3t'') ''Chess Club'' ''test@mergington.edu'' =
     (Inr (MessageResponse ''Signed up test@mergington.edu for Chess Club''), enrolled_state)"
  by (simp add: signup_request_auth [OF logged_in_auth] signup_success [OF logged_in_chess]
      enrolled_state_def)

lemma enrolled_auth: "require_auth enrolled_state (Some ''s3cr3t'') = Inr ''mrodriguez''"
proof -
  have "require_auth enrolled_state (Some ''s3cr3t'') =
      require_auth logged_in_state (Some ''s3cr3t'')"
    by (rule require_auth_sessions) (simp add: enrolled_state_def)
  then show ?thesis
    by (simp add: logged_in_auth)
qed

lemma enrolled_chess:
  "activities enrolled_state ''Chess Club'' =
     Some \<lparr>description = ''Learn strategies and compete in chess tournaments'',
      schedule = ''Fridays, 3:30 PM - 5:00 PM'',
      max_participants = 12,
      participants = [''michael@mergington.edu'', ''daniel@mergington.edu'',
        ''test@mergington.edu'']\<rparr>"
  by (simp add: enrolled_state_def)

lemma unregister_example:
  "unregister_request enrolled_state (Some ''s3cr3t'') ''Chess Club'' ''michael@mergington.edu'' =
     (Inr (MessageResponse ''Unregistered michael@mergington.edu from Chess Club''),
      snd (unregister_request enrolled_state (Some ''s3cr3t'') ''Chess Club''
        ''michael@mergington.edu''))"
  by (simp add: unregister_request_auth [OF enrolled_auth] unregister_success [OF enrolled_chess])

lemma enrolled_reachable: "reachable example_teachers example_checkpw enrolled_state"
proof -
  have "reachable example_teachers example_checkpw
      (snd (handle example_teachers example_checkpw ''t0k3n'' logged_in_state (Some ''s3cr3t'')
         (Signup ''Chess Club'' ''test@mergington.edu'')))"
    by (rule reachable.request [OF logged_in_reachable]) simp
  then show ?thesis
    by (simp add: signup_example)
qed

lemma init_no_cookie:
  "require_auth init_state None = Inl (HTTPException 401 ''Authentication required'')"
  by (simp add: require_auth_def get_current_user_None)

subsection \<open>Requests without a valid session\<close>

text \<open>
  Claim C3. A sign-up or unregister request whose cookie is missing, or whose token does
  not resolve in the session registry (\<open>get_current_user\<close> returns \<open>None\<close>), is
  answered with the 401 of \<^verbatim>\<open>require_auth\<close>, and the whole state, session registry
  and activity registry, is what it was. More generally no route changes the activity
  registry for such a request.
\<close>

theorem unauthenticated_rejected:
  assumes "get_current_user s session_id = None"
  shows
    "signup_request s session_id activity_name email =
       (Inl (HTTPException 401 ''Authentication required''), s) \<and>
     unregister_request s session_id activity_name email =
       (Inl (HTTPException 401 ''Authentication required''), s) \<and>
     activities (snd (handle teachers_data checkpw token s session_id r)) = activities s"
proof -
  from assms have unauth:
    "require_auth s session_id = Inl (HTTPException 401 ''Authentication required'')"
    by (rule require_auth_unresolved)
  show ?thesis
    by (simp add: signup_request_unauth [OF unauth] unregister_request_unauth [OF unauth]
        handle_unauth_activities [OF unauth])
qed

text \<open>A request with no cookie and a request with a token nobody was issued.\<close>

theorem unauthenticated_rejected_witness:
  "get_current_user logged_in_state None = None \<and>
   signup_request logged_in_state None ''Chess Club'' ''test@mergington.edu'' =
     (Inl (HTTPException 401 ''Authentication required''), logged_in_state) \<and>
   unregister_request logged_in_state None ''Chess Club'' ''michael@mergington.edu'' =
     (Inl (HTTPException 401 ''Authentication required''), logged_in_state) \<and>
   get_current_user logged_in_state (Some ''f0rg3d'') = None \<and>
   sessions logged_in_state ''f0rg3d'' = None \<and>
   signup_request logged_in_state (Some ''f0rg3d'') ''Chess Club'' ''test@mergington.edu'' =
     (Inl (HTTPException 401 ''Authentication required''), logged_in_state) \<and>
   unregister_request logged_in_state (Some ''f0rg3d'') ''Chess Club'' ''michael@mergington.edu'' =
     (Inl (HTTPException 401 ''Authentication required''), logged_in_state)"
  using unauthenticated_rejected [OF no_cookie_unresolved, of "''Chess Club''" "''test@mergington.edu''"]
    unauthenticated_rejected [OF no_cookie_unresolved, of "''Chess Club''" "''michael@mergington.edu''"]
    unauthenticated_rejected [OF forged_cookie_unresolved, of "''Chess Club''" "''test@mergington.edu''"]
    unauthenticated_rejected [OF forged_cookie_unresolved, of "''Chess Club''" "''michael@mergington.edu''"]
    no_cookie_unresolved forged_cookie_unresolved
  by (simp add: logged_in_state_def)

subsection \<open>Failed roster mutations\<close>

lemma signup_error:
  "fst (signup_for_activity s n e u) = Inl err \<Longrightarrow>
   (err = HTTPException 404 ''Activity not found'' \<or>
    err = HTTPException 400 ''Student is already signed up'') \<and>
   snd (signup_for_activity s n e u) = s"
  by (auto simp: signup_for_activity_def split: option.splits if_splits)

lemma unregister_error:
  "fst (unregister_from_activity s n e u) = Inl err \<Longrightarrow>
   (err = HTTPException 404 ''Activity not found'' \<or>
    err = HTTPException 400 ''Student is not signed up for this activity'') \<and>
   snd (unregister_from_activity s n e u) = s"
  by (auto simp: unregister_from_activity_def split: option.splits if_splits)

text \<open>
  Claim C4. When the body of the sign-up or unregister handler raises, the error is a
  404 or a 400 and the state is exactly the state before the call; so calling it again
  in the state it left gives the same error and the same state. The same holds for the
  whole request, where the error can also be the 401 of the dependency.
\<close>

theorem failed_mutation_unchanged:
  "(fst (signup_for_activity s activity_name email current_user) = Inl err \<longrightarrow>
      (status_code err = 404 \<or> status_code err = 400) \<and>
      snd (signup_for_activity s activity_name email current_user) = s \<and>
      signup_for_activity (snd (signup_for_activity s activity_name email current_user))
        activity_name email current_user = (Inl err, s)) \<and>
   (fst (unregister_from_activity s activity_name email current_user) = Inl err \<longrightarrow>
      (status_code err = 404 \<or> status_code err = 400) \<and>
      snd (unregister_from_activity s activity_name email current_user) = s \<and>
      unregister_from_activity (snd (unregister_from_activity s activity_name email current_user))
        activity_name email current_user = (Inl err, s)) \<and>
   (fst (signup_request s session_id activity_name email) = Inl err \<longrightarrow>
      snd (signup_request s session_id activity_name email) = s \<and>
      signup_request (snd (signup_request s session_id activity_name email))
        session_id activity_name email = (Inl err, s)) \<and>
   (fst (unregister_request s session_id activity_name email) = Inl err \<longrightarrow>
      snd (unregister_request s session_id activity_name email) = s \<and>
      unregister_request (snd (unregister_request s session_id activity_name email))
        session_id activity_name email = (Inl err, s))"
proof (intro conjI impI)
  assume f: "fst (signup_for_activity s activity_name email current_user) = Inl err"
  from signup_error [OF f] show "status_code err = 404 \<or> status_code err = 400"
    by auto
  from signup_error [OF f]
  show st: "snd (signup_for_activity s activity_name email current_user) = s"
    by simp
  from f st show "signup_for_activity (snd (signup_for_activity s activity_name email current_user))
        activity_name email current_user = (Inl err, s)"
    by (simp add: prod_eq_iff)
next
  assume f: "fst (unregister_from_activity s activity_name email current_user) = Inl err"
  from unregister_error [OF f] show "status_code err = 404 \<or> status_code err = 400"
    by auto
  from unregister_error [OF f]
  show st: "snd (unregister_from_activity s activity_name email current_user) = s"
    by simp
  from f st
  show "unregister_from_activity (snd (unregister_from_activity s activity_name email current_user))
        activity_name email current_user = (Inl err, s)"
    by (simp add: prod_eq_iff)
next
  assume f: "fst (signup_request s session_id activity_name email) = Inl err"
  then show st: "snd (signup_request s session_id activity_name email) = s"
    by (auto simp: signup_request_def split: sum.splits dest: signup_error)
  from f st show "signup_request (snd (signup_request s session_id activity_name email))
        session_id activity_name email = (Inl err, s)"
    by (simp add: prod_eq_iff)
next
  assume f: "fst (unregister_request s session_id activity_name email) = Inl err"
  then show st: "snd (unregister_request s session_id activity_name email) = s"
    by (auto simp: unregister_request_def split: sum.splits dest: unregister_error)
  from f st show "unregister_request (snd (unregister_request s session_id activity_name email))
        session_id activity_name email = (Inl err, s)"
    by (simp add: prod_eq_iff)
qed

text \<open>
  A duplicate sign-up (400), an unregister from an unknown activity (404), and the same
  two kinds of failure through the authenticated routes.
\<close>

theorem failed_mutation_unchanged_witness:
  "fst (signup_for_activity full_state ''Chess Club'' ''daniel@mergington.edu'' ''mrodriguez'') =
     Inl (HTTPException 400 ''Student is already signed up'') \<and>
   signup_for_activity
     (snd (signup_for_activity full_state ''Chess Club'' ''daniel@mergington.edu'' ''mrodriguez''))
     ''Chess Club'' ''daniel@mergington.edu'' ''mrodriguez'' =
     (Inl (HTTPException 400 ''Student is already signed up''), full_state) \<and>
   fst (unregister_from_activity full_state ''Juggling Club'' ''daniel@mergington.edu'' ''mrodriguez'') =
     Inl (HTTPException 404 ''Activity not found'') \<and>
   unregister_from_activity
     (snd (unregister_from_activity full_state ''Juggling Club'' ''daniel@mergington.edu'' ''mrodriguez''))
     ''Juggling Club'' ''daniel@mergington.edu'' ''mrodriguez'' =
     (Inl (HTTPException 404 ''Activity not found''), full_state) \<and>
   fst (signup_request full_state (Some ''s3cr3t'') ''Juggling Club'' ''daniel@mergington.edu'') =
     Inl (HTTPException 404 ''Activity not found'') \<and>
   signup_request
     (snd (signup_request full_state (Some ''s3cr3t'') ''Juggling Club'' ''daniel@mergington.edu''))
     (Some ''s3cr3t'') ''Juggling Club'' ''daniel@mergington.edu'' =
     (Inl (HTTPException 404 ''Activity not found''), full_state) \<and>
   fst (unregister_request full_state (Some ''s3cr3t'') ''Chess Club'' ''test@mergington.edu'') =
     Inl (HTTPException 400 ''Student is not signed up for this activity'') \<and>
   unregister_request
     (snd (unregister_request full_state (Some ''s3cr3t'') ''Chess Club'' ''test@mergington.edu''))
     (Some ''s3cr3t'') ''Chess Club'' ''test@mergington.edu'' =
     (Inl (HTTPException 400 ''Student is not signed up for this activity''), full_state)"
proof -
  have a: "fst (signup_for_activity full_state ''Chess Club'' ''daniel@mergington.edu'' ''mrodriguez'') =
     Inl (HTTPException 400 ''Student is already signed up'')"
    by (simp add: signup_duplicate [OF full_chess])
  have b: "fst (unregister_from_activity full_state ''Juggling Club'' ''daniel@mergington.edu'' ''mrodriguez'') =
     Inl (HTTPException 404 ''Activity not found'')"
    by (simp add: unregister_not_found [OF full_unknown])
  have c: "fst (signup_request full_state (Some ''s3cr3t'') ''Juggling Club'' ''daniel@mergington.edu'') =
     Inl (HTTPException 404 ''Activity not found'')"
    by (simp add: signup_request_auth [OF full_auth] signup_not_found [OF full_unknown])
  have d: "fst (unregister_request full_state (Some ''s3cr3t'') ''Chess Club'' ''test@mergington.edu'') =
     Inl (HTTPException 400 ''Student is not signed up for this activity'')"
    by (simp add: unregister_request_auth [OF full_auth] unregister_absent [OF full_chess])
  note w = failed_mutation_unchanged [where s = full_state and current_user = "''mrodriguez''"
      and session_id = "Some ''s3cr3t''"]
  from a w [where activity_name = "''Chess Club''" and email = "''daniel@mergington.edu''"
      and err = "HTTPException 400 ''Student is already signed up''"]
  have a': "signup_for_activity
     (snd (signup_for_activity full_state ''Chess Club'' ''daniel@mergington.edu'' ''mrodriguez''))
     ''Chess Club'' ''daniel@mergington.edu'' ''mrodriguez'' =
     (Inl (HTTPException 400 ''Student is already signed up''), full_state)"
    by (simp add: prod_eq_iff)
  from b w [where activity_name = "''Juggling Club''" and email = "''daniel@mergington.edu''"
      and err = "HTTPException 404 ''Activity not found''"]
  have b': "unregister_from_activity
     (snd (unregister_from_activity full_state ''Juggling Club'' ''daniel@mergington.edu'' ''mrodriguez''))
     ''Juggling Club'' ''daniel@mergington.edu'' ''mrodriguez'' =
     (Inl (HTTPException 404 ''Activity not found''), full_state)"
    by (simp add: prod_eq_iff)
  from c w [where activity_name = "''Juggling Club''" and email = "''daniel@mergington.edu''"
      and err = "HTTPException 404 ''Activity not found''"]
  have c': "signup_request
     (snd (signup_request full_state (Some ''s3cr3t'') ''Juggling Club'' ''daniel@mergington.edu''))
     (Some ''s3cr3t'') ''Juggling Club'' ''daniel@mergington.edu'' =
     (Inl (HTTPException 404 ''Activity not found''), full_state)"
    by (simp add: prod_eq_iff)
  from d w [where activity_name = "''Chess Club''" and email = "''test@mergington.edu''"
      and err = "HTTPException 400 ''Student is not signed up for this activity''"]
  have d': "unregister_request
     (snd (unregister_request full_state (Some ''s3cr3t'') ''Chess Club'' ''test@mergington.edu''))
     (Some ''s3cr3t'') ''Chess Club'' ''test@mergington.edu'' =
     (Inl (HTTPException 400 ''Student is not signed up for this activity''), full_state)"
    by (simp add: prod_eq_iff)
  from a b c d a' b' c' d' show ?thesis
    by (intro conjI)
qed

subsection \<open>Login with invalid credentials\<close>

lemma example_teacher_found:
  "find (\<lambda>t. username t = ''mrodriguez'') example_teachers =
     Some \<lparr>username = ''mrodriguez'', password_hash = ''hash:art123''\<rparr>"
  by (simp add: example_teachers_def)

lemma long_password_length: "length long_password = 73"
  by (simp add: long_password_def)

lemma long_password_raises: "example_checkpw long_password stored_hash = None"
  by (simp add: example_checkpw_def long_password_length)

lemma long_password_wrong: "long_password \<noteq> ''art123''"
proof
  assume "long_password = ''art123''"
  then have "length long_password = length ''art123''"
    by (rule arg_cong)
  then show False
    by (simp add: long_password_length)
qed

lemma login_long_password:
  "login example_teachers example_checkpw ''s3cr3t'' init_state ''mrodriguez'' long_password =
     (Inl ValueError, init_state)"
  by (simp add: login_def example_teacher_found long_password_raises)

text \<open>
  Claim C6, as the code has it. When no teacher has the submitted username, or the
  password check returns \<open>False\<close> for the stored hash of the first teacher with that
  username, \<^verbatim>\<open>login\<close> raises a 401 with the one message \<open>''Invalid credentials''\<close> in both
  cases and the state (so the session registry) is unchanged. Whatever \<^verbatim>\<open>login\<close>
  raises, it raises before \<^verbatim>\<open>sessions\<close> is written: no failing login creates a session.
\<close>

theorem login_rejected_credentials:
  "(username' \<notin> username ` set teachers_data \<or>
      (\<exists>teacher. find (\<lambda>t. username t = username') teachers_data = Some teacher \<and>
         checkpw password (password_hash teacher) = Some False) \<longrightarrow>
    login teachers_data checkpw token s username' password =
      (Inl (HTTPException 401 ''Invalid credentials''), s)) \<and>
   (fst (login teachers_data checkpw token s username' password) = Inl e \<longrightarrow>
    snd (login teachers_data checkpw token s username' password) = s)"
proof (intro conjI impI)
  assume "username' \<notin> username ` set teachers_data \<or>
      (\<exists>teacher. find (\<lambda>t. username t = username') teachers_data = Some teacher \<and>
         checkpw password (password_hash teacher) = Some False)"
  then consider
    (unknown) "username' \<notin> username ` set teachers_data"
    | (mismatch) teacher where "find (\<lambda>t. username t = username') teachers_data = Some teacher"
      and "checkpw password (password_hash teacher) = Some False"
    by auto
  then show "login teachers_data checkpw token s username' password =
      (Inl (HTTPException 401 ''Invalid credentials''), s)"
  proof cases
    case unknown
    then have "find (\<lambda>t. username t = username') teachers_data = None"
      by (auto simp: find_None_iff)
    then show ?thesis
      by (simp add: login_def)
  next
    case mismatch
    then show ?thesis
      by (simp add: login_def)
  qed
next
  assume "fst (login teachers_data checkpw token s username' password) = Inl e"
  then show "snd (login teachers_data checkpw token s username' password) = s"
    by (rule login_failure_state)
qed

text \<open>
  An unknown username, a known username with a wrong password that the check rejects,
  and a failing login that leaves the state as it was.
\<close>

theorem login_rejected_credentials_witness:
  "''nobody'' \<notin> username ` set example_teachers \<and>
   login example_teachers example_checkpw ''s3cr3t'' init_state ''nobody'' ''art123'' =
     (Inl (HTTPException 401 ''Invalid credentials''), init_state) \<and>
   find (\<lambda>t. username t = ''mrodriguez'') example_teachers =
     Some \<lparr>username = ''mrodriguez'', password_hash = ''hash:art123''\<rparr> \<and>
   example_checkpw ''wrong'' ''hash:art123'' = Some False \<and>
   login example_teachers example_checkpw ''s3cr3t'' init_state ''mrodriguez'' ''wrong'' =
     (Inl (HTTPException 401 ''Invalid credentials''), init_state) \<and>
   fst (login example_teachers example_checkpw ''s3cr3t'' init_state ''mrodriguez'' long_password) =
     Inl ValueError \<and>
   snd (login example_teachers example_checkpw ''s3cr3t'' init_state ''mrodriguez'' long_password) =
     init_state"
proof -
  note w = login_rejected_credentials [where teachers_data = example_teachers
      and checkpw = example_checkpw and token = "''s3cr3t''" and s = init_state]
  have a: "''nobody'' \<notin> username ` set example_teachers"
    by (simp add: example_teachers_def)
  have c: "example_checkpw ''wrong'' ''hash:art123'' = Some False"
    by (simp add: example_checkpw_def)
  from example_teacher_found c
  have d: "\<exists>teacher. find (\<lambda>t. username t = ''mrodriguez'') example_teachers = Some teacher \<and>
        example_checkpw ''wrong'' (password_hash teacher) = Some False"
    by simp
  from a w [where username' = "''nobody''" and password = "''art123''"]
  have e: "login example_teachers example_checkpw ''s3cr3t'' init_state ''nobody'' ''art123'' =
     (Inl (HTTPException 401 ''Invalid credentials''), init_state)"
    by simp
  from d w [where username' = "''mrodriguez''" and password = "''wrong''"]
  have f: "login example_teachers example_checkpw ''s3cr3t'' init_state ''mrodriguez'' ''wrong'' =
     (Inl (HTTPException 401 ''Invalid credentials''), init_state)"
    by simp
  have g: "fst (login example_teachers example_checkpw ''s3cr3t'' init_state ''mrodriguez''
      long_password) = Inl ValueError"
    by (simp add: login_long_password)
  from g w [where username' = "''mrodriguez''" and password = long_password and e = ValueError]
  have h: "snd (login example_teachers example_checkpw ''s3cr3t'' init_state ''mrodriguez''
      long_password) = init_state"
    by simp
  from a e example_teacher_found c f g h show ?thesis
    by (intro conjI)
qed

text \<open>
  Claim C6 as stated, for every login request with invalid credentials, fails where the
  password check raises instead of returning \<open>False\<close>: a known username with a wrong
  password of 73 bytes. The \<^verbatim>\<open>ValueError\<close> leaves \<^verbatim>\<open>login\<close> uncaught, so the answer is
  a 500 and not the 401; the state is still unchanged.
\<close>

theorem login_long_password_not_401:
  "find (\<lambda>t. username t = ''mrodriguez'') example_teachers =
     Some \<lparr>username = ''mrodriguez'', password_hash = ''hash:art123''\<rparr> \<and>
   example_checkpw ''art123'' ''hash:art123'' = Some True \<and>
   long_password \<noteq> ''art123'' \<and>
   length long_password = 73 \<and>
   example_checkpw long_password ''hash:art123'' = None \<and>
   login example_teachers example_checkpw ''s3cr3t'' init_state ''mrodriguez'' long_password =
     (Inl ValueError, init_state) \<and>
   status_code ValueError = 500 \<and>
   fst (login example_teachers example_checkpw ''s3cr3t'' init_state ''mrodriguez'' long_password) \<noteq>
     Inl (HTTPException 401 ''Invalid credentials'')"
proof -
  have ok: "example_checkpw ''art123'' ''hash:art123'' = Some True"
    by (simp add: example_checkpw_def)
  have ne: "fst (login example_teachers example_checkpw ''s3cr3t'' init_state ''mrodriguez''
      long_password) \<noteq> Inl (HTTPException 401 ''Invalid credentials'')"
    by (simp add: login_long_password)
  have st: "status_code ValueError = 500"
    by simp
  from example_teacher_found ok long_password_wrong long_password_length
    long_password_raises [of "''hash:art123''"] login_long_password st ne
  show ?thesis
    by (intro conjI)
qed

subsection \<open>Sign-up followed by unregister\<close>

text \<open>
  Claim C7. With a valid session, an existing activity and an email that is not on its
  roster: the sign-up succeeds, the unregister that follows succeeds and gives back
  exactly the state before the sign-up, and in that state a further unregister of the
  same email fails with the 400 \<open>''Student is not signed up for this activity''\<close>.
\<close>

theorem signup_unregister_roundtrip:
  assumes auth: "require_auth s session_id = Inr current_user"
    and act: "activities s activity_name = Some a"
    and new: "email \<notin> set (participants a)"
  shows
    "fst (signup_request s session_id activity_name email) =
       Inr (MessageResponse (''Signed up '' @ email @ '' for '' @ activity_name)) \<and>
     unregister_request (snd (signup_request s session_id activity_name email))
       session_id activity_name email =
       (Inr (MessageResponse (''Unregistered '' @ email @ '' from '' @ activity_name)), s) \<and>
     unregister_request s session_id activity_name email =
       (Inl (HTTPException 400 ''Student is not signed up for this activity''), s)"
proof -
  let ?a1 = "a\<lparr>participants := participants a @ [email]\<rparr>"
  let ?s1 = "s\<lparr>activities := (activities s)(activity_name \<mapsto> ?a1)\<rparr>"
  have up: "signup_request s session_id activity_name email =
      (Inr (MessageResponse (''Signed up '' @ email @ '' for '' @ activity_name)), ?s1)"
    using auth act new by (simp add: signup_request_auth signup_success)
  have "require_auth ?s1 session_id = require_auth s session_id"
    by (rule require_auth_sessions) simp
  with auth have auth1: "require_auth ?s1 session_id = Inr current_user"
    by simp
  have act1: "activities ?s1 activity_name = Some ?a1"
    by simp
  have mem: "email \<in> set (participants ?a1)"
    by simp
  from new have restored: "?a1\<lparr>participants := remove1 email (participants ?a1)\<rparr> = a"
    by (simp add: remove1_append)
  have down: "unregister_request ?s1 session_id activity_name email =
      (Inr (MessageResponse (''Unregistered '' @ email @ '' from '' @ activity_name)), s)"
    unfolding unregister_request_auth [OF auth1] unregister_success [OF act1 mem] restored
    using act by (simp add: map_upd_triv)
  have again: "unregister_request s session_id activity_name email =
      (Inl (HTTPException 400 ''Student is not signed up for this activity''), s)"
    using auth act new by (simp add: unregister_request_auth unregister_absent)
  from up down again show ?thesis
    by simp
qed

text \<open>The scenario on the seeded data: the Chess Club and a new email.\<close>

theorem signup_unregister_roundtrip_witness:
  "require_auth logged_in_state (Some ''s3cr3t'') = Inr ''mrodriguez'' \<and>
   map_option participants (activities logged_in_state ''Chess Club'') =
     Some [''michael@mergington.edu'', ''daniel@mergington.edu''] \<and>
   ''test@mergington.edu'' \<notin> set [''michael@mergington.edu'', ''daniel@mergington.edu''] \<and>
   fst (signup_request logged_in_state (Some ''s3cr3t'') ''Chess Club'' ''test@mergington.edu'') =
     Inr (MessageResponse ''Signed up test@mergington.edu for Chess Club'') \<and>
   unregister_request
     (snd (signup_request logged_in_state (Some ''s3cr3t'') ''Chess Club'' ''test@mergington.edu''))
     (Some ''s3cr3t'') ''Chess Club'' ''test@mergington.edu'' =
     (Inr (MessageResponse ''Unregistered test@mergington.edu from Chess Club''), logged_in_state) \<and>
   unregister_request logged_in_state (Some ''s3cr3t'') ''Chess Club'' ''test@mergington.edu'' =
     (Inl (HTTPException 400 ''Student is not signed up for this activity''), logged_in_state)"
proof -
  have new: "''test@mergington.edu'' \<notin> set (participants
     \<lparr>description = ''Learn strategies and compete in chess tournaments'',
        schedule = ''Fridays, 3:30 PM - 5:00 PM'',
        max_participants = 12,
        participants = [''michael@mergington.edu'', ''daniel@mergington.edu'']\<rparr>)"
    by simp
  from signup_unregister_roundtrip [OF logged_in_auth logged_in_chess new]
    logged_in_auth logged_in_chess
  show ?thesis
    by simp
qed

subsection \<open>What a successful roster mutation changes\<close>

lemma signup_request_success:
  assumes "signup_request s c n e = (Inr m, s')"
  shows "\<exists>a. activities s n = Some a \<and> e \<notin> set (participants a) \<and>
     s' = s\<lparr>activities := (activities s)(n \<mapsto> a\<lparr>participants := participants a @ [e]\<rparr>)\<rparr>"
  using assms
  by (auto simp: signup_request_def signup_for_activity_def split: sum.splits option.splits if_splits)

lemma unregister_request_success:
  assumes "unregister_request s c n e = (Inr m, s')"
  shows "\<exists>a. activities s n = Some a \<and> e \<in> set (participants a) \<and>
     s' = s\<lparr>activities := (activities s)(n \<mapsto> a\<lparr>participants := remove1 e (participants a)\<rparr>)\<rparr>"
  using assms
  by (auto simp: unregister_request_def unregister_from_activity_def
      split: sum.splits option.splits if_splits)

text \<open>
  Claim C10. A successful sign-up or unregister request for \<open>activity_name\<close> leaves the
  session registry as it was, leaves the entry of every other activity name as it was,
  and in the entry of \<open>activity_name\<close> itself changes nothing but \<^verbatim>\<open>participants\<close>:
  description, schedule and \<^verbatim>\<open>max_participants\<close> keep their values.
\<close>

theorem roster_frame:
  assumes "signup_request s session_id activity_name email = (Inr m, s') \<or>
     unregister_request s session_id activity_name email = (Inr m, s')"
  shows
    "sessions s' = sessions s \<and>
     (\<forall>other. other \<noteq> activity_name \<longrightarrow> activities s' other = activities s other) \<and>
     (\<exists>a a'. activities s activity_name = Some a \<and> activities s' activity_name = Some a' \<and>
        description a' = description a \<and> schedule a' = schedule a \<and>
        max_participants a' = max_participants a \<and>
        a' = a\<lparr>participants := participants a'\<rparr>)"
  using assms
proof
  assume "signup_request s session_id activity_name email = (Inr m, s')"
  from signup_request_success [OF this] obtain a where
    a: "activities s activity_name = Some a" and
    s': "s' = s\<lparr>activities := (activities s)(activity_name \<mapsto>
          a\<lparr>participants := participants a @ [email]\<rparr>)\<rparr>"
    by auto
  show ?thesis
    unfolding s' using a by simp
next
  assume "unregister_request s session_id activity_name email = (Inr m, s')"
  from unregister_request_success [OF this] obtain a where
    a: "activities s activity_name = Some a" and
    s': "s' = s\<lparr>activities := (activities s)(activity_name \<mapsto>
          a\<lparr>participants := remove1 email (participants a)\<rparr>)\<rparr>"
    by auto
  show ?thesis
    unfolding s' using a by simp
qed

text \<open>
  The sign-up that leads from \<open>logged_in_state\<close> to \<open>enrolled_state\<close>, and an
  unregister in \<open>enrolled_state\<close>.
\<close>

theorem roster_frame_witness:
  "signup_request logged_in_state (Some ''s3cr3t'') ''Chess Club'' ''test@mergington.edu'' =
     (Inr (MessageResponse ''Signed up test@mergington.edu for Chess Club''), enrolled_state) \<and>
   sessions enrolled_state = sessions logged_in_state \<and>
   activities enrolled_state ''Math Club'' = activities logged_in_state ''Math Club'' \<and>
   map_option max_participants (activities enrolled_state ''Chess Club'') =
     map_option max_participants (activities logged_in_state ''Chess Club'') \<and>
   fst (unregister_request enrolled_state (Some ''s3cr3t'') ''Chess Club''
     ''michael@mergington.edu'') =
     Inr (MessageResponse ''Unregistered michael@mergington.edu from Chess Club'') \<and>
   sessions (snd (unregister_request enrolled_state (Some ''s3cr3t'') ''Chess Club''
     ''michael@mergington.edu'')) = sessions enrolled_state \<and>
   activities (snd (unregister_request enrolled_state (Some ''s3cr3t'') ''Chess Club''
     ''michael@mergington.edu'')) ''Math Club'' = activities enrolled_state ''Math Club''"
proof -
  note up = roster_frame [OF disjI1 [OF signup_example]]
  note down = roster_frame [OF disjI2 [OF unregister_example]]
  have ne: "''Math Club'' \<noteq> ''Chess Club''"
    by simp
  from up have u1: "sessions enrolled_state = sessions logged_in_state"
    by (rule conjunct1)
  from up ne have u2: "activities enrolled_state ''Math Club'' = activities logged_in_state ''Math Club''"
    by (elim conjE allE [of _ "''Math Club''"] impE)
  from up have u3: "map_option max_participants (activities enrolled_state ''Chess Club'') =
     map_option max_participants (activities logged_in_state ''Chess Club'')"
    by (elim conjE exE) simp
  from down have d1: "sessions (snd (unregister_request enrolled_state (Some ''s3cr3t'')
     ''Chess Club'' ''michael@mergington.edu'')) = sessions enrolled_state"
    by (rule conjunct1)
  from down ne have d2: "activities (snd (unregister_request enrolled_state (Some ''s3cr3t'')
     ''Chess Club'' ''michael@mergington.edu'')) ''Math Club'' =
     activities enrolled_state ''Math Club''"
    by (elim conjE allE [of _ "''Math Club''"] impE)
  from unregister_example have d0: "fst (unregister_request enrolled_state (Some ''s3cr3t'')
     ''Chess Club'' ''michael@mergington.edu'') =
     Inr (MessageResponse ''Unregistered michael@mergington.edu from Chess Club'')"
    by (simp add: prod_eq_iff)
  from signup_example u1 u2 u3 d0 d1 d2 show ?thesis
    by (intro conjI)
qed

subsection \<open>The session registry\<close>

text \<open>
  In every reachable state each session key is a drawn token, so it is not empty, and
  each session value is a username that \<^verbatim>\<open>login\<close> found in the credential store.
\<close>

lemma find_username:
  "find (\<lambda>t. username t = u) T = Some teacher \<Longrightarrow> u \<in> username ` set T"
  by (auto simp: find_Some_iff)

lemma sessions_ok_init: "sessions_ok T init_state"
  by (simp add: sessions_ok_def init_state_def)

lemma login_sessions_ok:
  assumes "sessions_ok T s" and "tok \<noteq> []"
  shows "sessions_ok T (snd (login T ck tok s u p))"
proof (cases "find (\<lambda>t. username t = u) T")
  case None
  with assms(1) show ?thesis
    by (simp add: login_def)
next
  case (Some teacher)
  then have "u \<in> username ` set T"
    by (rule find_username)
  with assms Some show ?thesis
    by (auto simp: login_def sessions_ok_def split: option.splits)
qed

lemma logout_sessions_ok: "sessions_ok T s \<Longrightarrow> sessions_ok T (snd (logout s c))"
  by (auto simp: logout_def sessions_ok_def split: option.splits if_splits)

lemma sessions_ok_cong: "sessions s' = sessions s \<Longrightarrow> sessions_ok T s \<Longrightarrow> sessions_ok T s'"
  by (simp add: sessions_ok_def)

lemma signup_request_sessions: "sessions (snd (signup_request s c n e)) = sessions s"
  by (simp add: signup_request_def signup_for_activity_def split: sum.splits option.splits)

lemma unregister_request_sessions: "sessions (snd (unregister_request s c n e)) = sessions s"
  by (simp add: unregister_request_def unregister_from_activity_def
      split: sum.splits option.splits)

lemma handle_sessions_ok:
  assumes "sessions_ok T s" and "tok \<noteq> []"
  shows "sessions_ok T (snd (handle T ck tok s c r))"
proof (cases r)
  case Root
  with assms show ?thesis by (simp add: root_def)
next
  case (Login u p)
  with assms show ?thesis by (simp add: login_sessions_ok)
next
  case Logout
  with assms show ?thesis by (simp add: logout_sessions_ok)
next
  case Status
  with assms show ?thesis by (simp add: auth_status_state)
next
  case ListActivities
  with assms show ?thesis by (simp add: get_activities_def)
next
  case (Signup n e)
  with assms(1) show ?thesis
    by (simp add: sessions_ok_cong [OF signup_request_sessions])
next
  case (Unregister n e)
  with assms(1) show ?thesis
    by (simp add: sessions_ok_cong [OF unregister_request_sessions])
qed

lemma reachable_sessions_ok: "reachable T ck s \<Longrightarrow> sessions_ok T s"
proof (induction rule: reachable.induct)
  case start
  show ?case by (rule sessions_ok_init)
next
  case (request s token session_id r)
  then show ?case by (simp add: handle_sessions_ok)
qed

lemma absent_unresolved:
  "token_absent s c \<Longrightarrow> get_current_user s c = None"
  by (auto simp: token_absent_def get_current_user_def split: option.splits)

lemma unresolved_status:
  "get_current_user s c = None \<Longrightarrow> auth_status s c = (Inr (StatusResponse False None), s)"
  by (simp add: auth_status_def)

lemma logout_unresolved: "get_current_user (snd (logout s c)) c = None"
  by (auto simp: logout_def get_current_user_def split: option.splits)

lemma logout_absent: "token_absent s c \<Longrightarrow> snd (logout s c) = s"
  by (auto simp: logout_def token_absent_def split: option.splits)

lemma logout_removes:
  "sid \<noteq> [] \<Longrightarrow> sessions (snd (logout s (Some sid))) = (sessions s)(sid := None)"
  by (auto simp: logout_def)

lemma sessions_ok_empty_key: "sessions_ok T s \<Longrightarrow> sessions s [] = None"
  by (cases "sessions s []") (auto simp: sessions_ok_def)

lemma resolved_iff_present:
  assumes "sessions_ok T s"
  shows "get_current_user s c = None \<longleftrightarrow> token_absent s c"
  using sessions_ok_empty_key [OF assms]
  by (auto simp: get_current_user_def token_absent_def split: option.splits)

lemma status_iff_present:
  assumes "sessions_ok T s" and "[] \<notin> username ` set T"
  shows "auth_status s c = (Inr (StatusResponse False None), s) \<longleftrightarrow> token_absent s c"
proof
  assume "token_absent s c"
  then show "auth_status s c = (Inr (StatusResponse False None), s)"
    by (simp add: absent_unresolved unresolved_status)
next
  assume st: "auth_status s c = (Inr (StatusResponse False None), s)"
  show "token_absent s c"
  proof (cases "get_current_user s c")
    case None
    with assms(1) show ?thesis
      by (simp add: resolved_iff_present)
  next
    case (Some u)
    then obtain sid where "c = Some sid" and "sessions s sid = Some u"
      by (auto simp: get_current_user_def split: option.splits if_splits)
    with assms have "u \<noteq> []"
      by (auto simp: sessions_ok_def)
    with st Some show ?thesis
      by (simp add: auth_status_def)
  qed
qed

text \<open>
  Claim C8. \<open>get_current_user\<close> is a total function into \<open>string option\<close>: it raises
  nothing. For a request whose token is absent (no cookie, or a value that is not a key
  of the registry) it returns \<open>None\<close>, the status route reports
  \<open>authenticated = False\<close>, and \<^verbatim>\<open>logout\<close> is a no-op. After \<^verbatim>\<open>logout\<close> the token of
  the request resolves to \<open>None\<close> and the status route reports \<open>authenticated = False\<close>.
  \<^verbatim>\<open>logout\<close> always answers with its success message, never touches the activities,
  and removes the mapping of a non-empty token.

  The converse, "unauthenticated only when the token is absent", rests on what the
  truthiness tests of the source skip: an empty cookie value and an empty username are
  treated as no session. Neither occurs in a reachable state when no teacher of the
  credential store has the empty username; there the lookup returns \<open>None\<close> exactly when
  the token is absent, and the status route reports \<open>authenticated = False\<close> exactly
  when the token is absent.
\<close>

theorem resolve_unauthenticated:
  "(token_absent s session_id \<longrightarrow>
      get_current_user s session_id = None \<and>
      auth_status s session_id = (Inr (StatusResponse False None), s) \<and>
      snd (logout s session_id) = s) \<and>
   get_current_user (snd (logout s session_id)) session_id = None \<and>
   auth_status (snd (logout s session_id)) session_id =
     (Inr (StatusResponse False None), snd (logout s session_id)) \<and>
   fst (logout s session_id) = Inr (LogoutResponse ''Logged out successfully'') \<and>
   activities (snd (logout s session_id)) = activities s \<and>
   (\<forall>sid. session_id = Some sid \<and> sid \<noteq> [] \<longrightarrow>
      sessions (snd (logout s session_id)) = (sessions s)(sid := None)) \<and>
   (reachable teachers_data checkpw s \<longrightarrow>
      (get_current_user s session_id = None \<longleftrightarrow> token_absent s session_id) \<and>
      (\<forall>sid. session_id = Some sid \<longrightarrow>
         sessions (snd (logout s session_id)) = (sessions s)(sid := None)) \<and>
      ([] \<notin> username ` set teachers_data \<longrightarrow>
         (auth_status s session_id = (Inr (StatusResponse False None), s) \<longleftrightarrow>
          token_absent s session_id)))"
proof (intro conjI impI allI)
  assume "token_absent s session_id"
  then show "get_current_user s session_id = None"
    and "auth_status s session_id = (Inr (StatusResponse False None), s)"
    and "snd (logout s session_id) = s"
    by (simp_all add: absent_unresolved unresolved_status logout_absent)
next
  show "get_current_user (snd (logout s session_id)) session_id = None"
    by (rule logout_unresolved)
  then show "auth_status (snd (logout s session_id)) session_id =
     (Inr (StatusResponse False None), snd (logout s session_id))"
    by (rule unresolved_status)
  show "fst (logout s session_id) = Inr (LogoutResponse ''Logged out successfully'')"
    by (simp add: logout_def)
  show "activities (snd (logout s session_id)) = activities s"
    by (rule logout_activities)
next
  fix sid
  assume "session_id = Some sid \<and> sid \<noteq> []"
  then show "sessions (snd (logout s session_id)) = (sessions s)(sid := None)"
    by (simp add: logout_removes)
next
  assume "reachable teachers_data checkpw s"
  then have ok: "sessions_ok teachers_data s"
    by (rule reachable_sessions_ok)
  then show "get_current_user s session_id = None \<longleftrightarrow> token_absent s session_id"
    by (rule resolved_iff_present)
  {
    fix sid
    assume c: "session_id = Some sid"
    show "sessions (snd (logout s session_id)) = (sessions s)(sid := None)"
    proof (cases "sid = []")
      case True
      with ok have "sessions s sid = None"
        by (simp add: sessions_ok_empty_key)
      with c show ?thesis
        by (simp add: logout_absent token_absent_def fun_upd_idem)
    next
      case False
      with c show ?thesis
        by (simp add: logout_removes)
    qed
  }
  {
    assume "[] \<notin> username ` set teachers_data"
    with ok show "auth_status s session_id = (Inr (StatusResponse False None), s) \<longleftrightarrow>
        token_absent s session_id"
      by (rule status_iff_present)
  }
qed

text \<open>
  In \<open>logged_in_state\<close>: a token that was never issued, and the issued token before
  and after \<^verbatim>\<open>logout\<close>.
\<close>

theorem resolve_unauthenticated_witness:
  "token_absent logged_in_state (Some ''f0rg3d'') \<and>
   get_current_user logged_in_state (Some ''f0rg3d'') = None \<and>
   auth_status logged_in_state (Some ''f0rg3d'') =
     (Inr (StatusResponse False None), logged_in_state) \<and>
   snd (logout logged_in_state (Some ''f0rg3d'')) = logged_in_state \<and>
   reachable example_teachers example_checkpw logged_in_state \<and>
   [] \<notin> username ` set example_teachers \<and>
   \<not> token_absent logged_in_state (Some ''s3cr3t'') \<and>
   get_current_user logged_in_state (Some ''s3cr3t'') \<noteq> None \<and>
   auth_status logged_in_state (Some ''s3cr3t'') \<noteq>
     (Inr (StatusResponse False None), logged_in_state) \<and>
   fst (logout logged_in_state (Some ''s3cr3t'')) =
     Inr (LogoutResponse ''Logged out successfully'') \<and>
   sessions (snd (logout logged_in_state (Some ''s3cr3t''))) =
     (sessions logged_in_state)(''s3cr3t'' := None) \<and>
   get_current_user (snd (logout logged_in_state (Some ''s3cr3t''))) (Some ''s3cr3t'') = None \<and>
   auth_status (snd (logout logged_in_state (Some ''s3cr3t''))) (Some ''s3cr3t'') =
     (Inr (StatusResponse False None), snd (logout logged_in_state (Some ''s3cr3t'')))"
  using resolve_unauthenticated [of logged_in_state "Some ''f0rg3d''" example_teachers example_checkpw]
    resolve_unauthenticated [of logged_in_state "Some ''s3cr3t''" example_teachers example_checkpw]
    forged_absent issued_present logged_in_reachable example_usernames
  by simp

subsection \<open>No roster lists an email twice\<close>

lemma rosters_distinct_init: "rosters_distinct init_state"
  by (simp add: rosters_distinct_def init_state_def seed_activities_def)

lemma rosters_distinct_cong:
  "activities s' = activities s \<Longrightarrow> rosters_distinct s \<Longrightarrow> rosters_distinct s'"
  by (simp add: rosters_distinct_def)

lemma signup_rosters_distinct:
  "rosters_distinct s \<Longrightarrow> rosters_distinct (snd (signup_for_activity s n e u))"
  by (auto simp: rosters_distinct_def signup_for_activity_def split: option.splits)

lemma unregister_rosters_distinct:
  "rosters_distinct s \<Longrightarrow> rosters_distinct (snd (unregister_from_activity s n e u))"
  by (auto simp: rosters_distinct_def unregister_from_activity_def split: option.splits)

lemma handle_rosters_distinct:
  assumes "rosters_distinct s"
  shows "rosters_distinct (snd (handle T ck tok s c r))"
proof (cases r)
  case Root
  with assms show ?thesis by (simp add: root_def)
next
  case (Login u p)
  with assms show ?thesis by (simp add: rosters_distinct_cong [OF login_activities])
next
  case Logout
  with assms show ?thesis by (simp add: rosters_distinct_cong [OF logout_activities])
next
  case Status
  with assms show ?thesis by (simp add: auth_status_state)
next
  case ListActivities
  with assms show ?thesis by (simp add: get_activities_def)
next
  case (Signup n e)
  with assms show ?thesis
    by (simp add: signup_request_def signup_rosters_distinct split: sum.splits)
next
  case (Unregister n e)
  with assms show ?thesis
    by (simp add: unregister_request_def unregister_rosters_distinct split: sum.splits)
qed

lemma reachable_rosters_distinct: "reachable T ck s \<Longrightarrow> rosters_distinct s"
proof (induction rule: reachable.induct)
  case start
  show ?case by (rule rosters_distinct_init)
next
  case (request s token session_id r)
  then show ?case by (simp add: handle_rosters_distinct)
qed

text \<open>
  Claim C9. In every state reachable from the seeded state by requests of any kind
  (sign-up, unregister, login, logout, status, listing), with any cookie and any
  parameters, the roster of every activity is free of duplicates.
\<close>

theorem no_duplicate_participants:
  assumes "reachable teachers_data checkpw s" and "activities s activity_name = Some a"
  shows "distinct (participants a)"
proof -
  from assms(1) have "rosters_distinct s"
    by (rule reachable_rosters_distinct)
  with assms(2) show ?thesis
    by (simp add: rosters_distinct_def)
qed

text \<open>The Chess Club roster after a login and a sign-up.\<close>

theorem no_duplicate_participants_witness:
  "reachable example_teachers example_checkpw enrolled_state \<and>
   activities enrolled_state ''Chess Club'' =
     Some \<lparr>description = ''Learn strategies and compete in chess tournaments'',
      schedule = ''Fridays, 3:30 PM - 5:00 PM'',
      max_participants = 12,
      participants = [''michael@mergington.edu'', ''daniel@mergington.edu'',
        ''test@mergington.edu'']\<rparr> \<and>
   distinct [''michael@mergington.edu'', ''daniel@mergington.edu'', ''test@mergington.edu'']"
  using no_duplicate_participants [OF enrolled_reachable enrolled_chess]
    enrolled_reachable enrolled_chess
  by simp

subsection \<open>Listing the activities\<close>

text \<open>
  Claim C5, as the code has it. Only the two roster routes depend on \<^verbatim>\<open>require_auth\<close>:
  when it raises, they answer with its 401 and change nothing. \<^verbatim>\<open>get_activities\<close>
  declares no dependency and reads no cookie: for every request, with or without a
  session, it returns the whole \<^verbatim>\<open>activities\<close> dictionary, unfiltered, and leaves the
  state unchanged.
\<close>

theorem list_activities_needs_no_session:
  "get_activities s = (Inr (ActivitiesResponse (activities s)), s) \<and>
   handle teachers_data checkpw token s session_id ListActivities =
     (Inr (ActivitiesResponse (activities s)), s) \<and>
   (require_auth s session_id = Inl e \<longrightarrow>
      e = HTTPException 401 ''Authentication required'' \<and>
      handle teachers_data checkpw token s session_id (Signup activity_name email) = (Inl e, s) \<and>
      handle teachers_data checkpw token s session_id (Unregister activity_name email) = (Inl e, s))"
  by (auto simp: get_activities_def signup_request_unauth unregister_request_unauth
      dest: require_auth_error)

text \<open>The seeded state and a request without a cookie.\<close>

theorem list_activities_needs_no_session_witness:
  "require_auth init_state None = Inl (HTTPException 401 ''Authentication required'') \<and>
   handle example_teachers example_checkpw ''s3cr3t'' init_state None ListActivities =
     (Inr (ActivitiesResponse seed_activities), init_state) \<and>
   handle example_teachers example_checkpw ''s3cr3t'' init_state None
     (Signup ''Chess Club'' ''test@mergington.edu'') =
     (Inl (HTTPException 401 ''Authentication required''), init_state) \<and>
   handle example_teachers example_checkpw ''s3cr3t'' init_state None
     (Unregister ''Chess Club'' ''michael@mergington.edu'') =
     (Inl (HTTPException 401 ''Authentication required''), init_state)"
proof -
  have acts: "activities init_state = seed_activities"
    by (simp add: init_state_def)
  from init_no_cookie
    list_activities_needs_no_session [of init_state example_teachers example_checkpw "''s3cr3t''"
      None "HTTPException 401 ''Authentication required''" "''Chess Club''" "''test@mergington.edu''"]
    list_activities_needs_no_session [of init_state example_teachers example_checkpw "''s3cr3t''"
      None "HTTPException 401 ''Authentication required''" "''Chess Club''" "''michael@mergington.edu''"]
  show ?thesis
    unfolding acts by simp
qed

text \<open>
  Claim C5 as stated, that the listing may only be invoked with a valid session, fails:
  in the seeded state a request without a cookie does not pass \<^verbatim>\<open>require_auth\<close>, and
  the listing route still answers it with the full activity mapping.
\<close>

theorem list_activities_without_session:
  "require_auth init_state None = Inl (HTTPException 401 ''Authentication required'') \<and>
   get_current_user init_state None = None \<and>
   handle example_teachers example_checkpw ''s3cr3t'' init_state None ListActivities =
     (Inr (ActivitiesResponse seed_activities), init_state)"
proof -
  have acts: "activities init_state = seed_activities"
    by (simp add: init_state_def)
  show ?thesis
    by (simp add: init_no_cookie get_current_user_None get_activities_def acts)
qed

end
